theory Spec2Isabelle
  imports Main "HOL-Library.Sublist"
begin

section \<open>Python text\<close>

text \<open>
  A Python \<open>str\<close> is a sequence of Unicode code points, so it is modelled as a list of
  natural numbers (one per code point), not as a list of 8-bit characters: the Review
  stage replaces a three-code-point sequence by the single code point U+2014.
  \<open>u\<close> turns an ASCII literal into such a text.
\<close>

type_synonym pystr = "nat list"

definition u :: "string \<Rightarrow> pystr" where
  "u s = map of_char s"

text \<open>
  \<open>str.isspace\<close> for one code point, as \<open>str.strip()\<close> without argument uses it:
  the ASCII separators 0x09-0x0D, 0x1C-0x1F and the blank, and the Unicode white space
  U+0085, U+00A0, U+1680, U+2000-U+200A, U+2028, U+2029, U+202F, U+205F and U+3000.
\<close>

definition isspace :: "nat \<Rightarrow> bool" where
  "isspace c \<longleftrightarrow>
     (9 \<le> c \<and> c \<le> 13) \<or> (28 \<le> c \<and> c \<le> 32) \<or> c = 133 \<or> c = 160 \<or> c = 5760 \<or>
     (8192 \<le> c \<and> c \<le> 8202) \<or> c = 8232 \<or> c = 8233 \<or> c = 8239 \<or> c = 8287 \<or> c = 12288"

definition lstrip :: "pystr \<Rightarrow> pystr" where
  "lstrip s = dropWhile isspace s"

definition rstrip :: "pystr \<Rightarrow> pystr" where
  "rstrip s = rev (dropWhile isspace (rev s))"

definition strip :: "pystr \<Rightarrow> pystr" where
  "strip s = rstrip (lstrip s)"

definition removeprefix :: "pystr \<Rightarrow> pystr \<Rightarrow> pystr" where
  "removeprefix s p = (if prefix p s then drop (length p) s else s)"

definition removesuffix :: "pystr \<Rightarrow> pystr \<Rightarrow> pystr" where
  "removesuffix s x =
     (if x \<noteq> [] \<and> suffix x s then take (length s - length x) s else s)"

text \<open>
  \<open>s.replace(old, new)\<close>: the occurrences of \<open>old\<close> are found from the left and do not
  overlap. For an empty \<open>old\<close> Python puts \<open>new\<close> before every code point and at the end.
\<close>

function replace :: "pystr \<Rightarrow> pystr \<Rightarrow> pystr \<Rightarrow> pystr" where
  "replace s old new =
     (if old = [] then new @ concat (map (\<lambda>c. c # new) s)
      else if s = [] then []
      else if prefix old s then new @ replace (drop (length old) s) old new
      else hd s # replace (tl s) old new)"
  by pat_completeness auto
termination
  by (relation "measure (\<lambda>(s, old, new). length s)") auto

text \<open>\<open>sep.join(xs)\<close>.\<close>

fun join :: "pystr \<Rightarrow> pystr list \<Rightarrow> pystr" where
  "join sep [] = []"
| "join sep [x] = x"
| "join sep (x # y # ys) = x @ sep @ join sep (y # ys)"

text \<open>\<open>str(n)\<close> for an integer: decimal digits, with a minus sign when negative.\<close>

function str_nat :: "nat \<Rightarrow> pystr" where
  "str_nat n = (if n < 10 then [48 + n] else str_nat (n div 10) @ [48 + n mod 10])"
  by pat_completeness auto
termination
  by (relation "measure id") auto

definition str_int :: "int \<Rightarrow> pystr" where
  "str_int i = (if i < 0 then 45 # str_nat (nat (- i)) else str_nat (nat i))"


section \<open>Decoded JSON values\<close>

text \<open>
  What \<open>json.loads\<close> returns: \<open>None\<close>, a bool, an int, a float, a str, a list, or a dict
  with str keys. A dict keeps the insertion order of its keys, so it is an association
  list (keys distinct in a decoded value; a lookup takes the first binding). A float is
  never inspected by this program; it is carried as a finite binary value
  \<open>m * 2^e\<close> or one of the special values.
\<close>

datatype pyfloat = Finite int int | NegZero | PosInf | NegInf | NaN

datatype json =
    JNull
  | JBool bool
  | JInt int
  | JFloat pyfloat
  | JStr pystr
  | JArr "json list"
  | JObj "(pystr \<times> json) list"

text \<open>The exceptions that the operations used on decoded values can raise.\<close>

datatype py_exn = TypeError | AttributeError | KeyError | OSError | ValueError

text \<open>Sequencing of computations that may raise.\<close>

fun and_then :: "py_exn + 'a \<Rightarrow> ('a \<Rightarrow> py_exn + 'b) \<Rightarrow> py_exn + 'b" where
  "and_then (Inl exn) k = Inl exn"
| "and_then (Inr v) k = k v"

text \<open>
  \<open>k in obj\<close> for a str \<open>k\<close>: key membership in a dict, element membership in a list
  (only an equal str is equal to a str), substring test in a str, and a \<open>TypeError\<close>
  for \<open>None\<close>, a bool or a number.
\<close>

fun py_in :: "pystr \<Rightarrow> json \<Rightarrow> py_exn + bool" where
  "py_in k (JObj kvs) = Inr (k \<in> set (map fst kvs))"
| "py_in k (JArr xs) = Inr (JStr k \<in> set xs)"
| "py_in k (JStr s) = Inr (sublist k s)"
| "py_in k JNull = Inl TypeError"
| "py_in k (JBool b) = Inl TypeError"
| "py_in k (JInt i) = Inl TypeError"
| "py_in k (JFloat f) = Inl TypeError"

text \<open>
  \<open>obj[k]\<close> for a str \<open>k\<close>: the value in a dict (\<open>KeyError\<close> when absent), a
  \<open>TypeError\<close> for everything else (a list or a str takes integer indices only).
\<close>

fun py_getitem :: "json \<Rightarrow> pystr \<Rightarrow> py_exn + json" where
  "py_getitem (JObj kvs) k = (case map_of kvs k of None \<Rightarrow> Inl KeyError | Some v \<Rightarrow> Inr v)"
| "py_getitem JNull k = Inl TypeError"
| "py_getitem (JBool b) k = Inl TypeError"
| "py_getitem (JInt i) k = Inl TypeError"
| "py_getitem (JFloat f) k = Inl TypeError"
| "py_getitem (JStr s) k = Inl TypeError"
| "py_getitem (JArr xs) k = Inl TypeError"

text \<open>\<open>obj.get(k, default)\<close>: only a dict has the method.\<close>

fun py_get :: "json \<Rightarrow> pystr \<Rightarrow> json \<Rightarrow> py_exn + json" where
  "py_get (JObj kvs) k d = (case map_of kvs k of None \<Rightarrow> Inr d | Some v \<Rightarrow> Inr v)"
| "py_get JNull k d = Inl AttributeError"
| "py_get (JBool b) k d = Inl AttributeError"
| "py_get (JInt i) k d = Inl AttributeError"
| "py_get (JFloat f) k d = Inl AttributeError"
| "py_get (JStr s) k d = Inl AttributeError"
| "py_get (JArr xs) k d = Inl AttributeError"

text \<open>
  \<open>for x in obj\<close>: the elements of a list, the keys of a dict, the one-code-point
  strings of a str; \<open>TypeError\<close> for the rest.
\<close>

fun py_iter :: "json \<Rightarrow> py_exn + json list" where
  "py_iter (JArr xs) = Inr xs"
| "py_iter (JObj kvs) = Inr (map (\<lambda>kv. JStr (fst kv)) kvs)"
| "py_iter (JStr s) = Inr (map (\<lambda>c. JStr [c]) s)"
| "py_iter JNull = Inl TypeError"
| "py_iter (JBool b) = Inl TypeError"
| "py_iter (JInt i) = Inl TypeError"
| "py_iter (JFloat f) = Inl TypeError"

text \<open>\<open>len(obj)\<close>.\<close>

fun py_len :: "json \<Rightarrow> py_exn + nat" where
  "py_len (JArr xs) = Inr (length xs)"
| "py_len (JObj kvs) = Inr (length kvs)"
| "py_len (JStr s) = Inr (length s)"
| "py_len JNull = Inl TypeError"
| "py_len (JBool b) = Inl TypeError"
| "py_len (JInt i) = Inl TypeError"
| "py_len (JFloat f) = Inl TypeError"

text \<open>
  \<open>v in S\<close> for a set \<open>S\<close> of strings: the value is hashed first, so a list or a dict
  raises \<open>TypeError\<close>; a str is a member when it is one of the strings; nothing else is
  equal to a str.
\<close>

fun py_in_set :: "json \<Rightarrow> pystr list \<Rightarrow> py_exn + bool" where
  "py_in_set (JStr s) S = Inr (s \<in> set S)"
| "py_in_set (JArr xs) S = Inl TypeError"
| "py_in_set (JObj kvs) S = Inl TypeError"
| "py_in_set JNull S = Inr False"
| "py_in_set (JBool b) S = Inr False"
| "py_in_set (JInt i) S = Inr False"
| "py_in_set (JFloat f) S = Inr False"

text \<open>
  \<open>str(v)\<close>, as an f-string formats a value. The text of a float, a list or a dict is
  Python's \<open>repr\<close>, which is not part of this program: it is the parameter \<open>rp\<close>.
\<close>

fun py_str :: "(json \<Rightarrow> pystr) \<Rightarrow> json \<Rightarrow> pystr" where
  "py_str rp (JStr s) = s"
| "py_str rp JNull = u ''None''"
| "py_str rp (JBool b) = (if b then u ''True'' else u ''False'')"
| "py_str rp (JInt i) = str_int i"
| "py_str rp (JFloat f) = rp (JFloat f)"
| "py_str rp (JArr xs) = rp (JArr xs)"
| "py_str rp (JObj kvs) = rp (JObj kvs)"


section \<open>How a run ends\<close>

text \<open>
  \<open>Fail m\<close> is \<open>_fail(m)\<close>: the banner and \<open>m\<close> go to the error channel and the process
  exits with status 1. \<open>Usage\<close> is the exit of \<open>main\<close> on a wrong argument count.
  \<open>Uncaught e\<close> is an exception that nothing catches: the interpreter prints a
  traceback and the process ends.
\<close>

datatype failure = Fail pystr | Usage | Uncaught py_exn

definition uncaught :: "py_exn + 'a \<Rightarrow> failure + 'a" where
  "uncaught m = (case m of Inl e \<Rightarrow> Inl (Uncaught e) | Inr x \<Rightarrow> Inr x)"


section \<open>Intake validator\<close>

text \<open>Lines 136-138: the loop over the three sub-fields of \<open>data["plan_context"]\<close>.\<close>

fun plan_context_loop :: "json \<Rightarrow> pystr list \<Rightarrow> pystr list \<Rightarrow> py_exn + pystr list" where
  "plan_context_loop data [] missing = Inr missing"
| "plan_context_loop data (field # fields) missing =
     and_then (py_getitem data (u ''plan_context'')) (\<lambda>pc.
     and_then (py_in field pc) (\<lambda>present.
       plan_context_loop data fields
         (if present then missing else missing @ [u ''plan_context.'' @ field])))"

text \<open>Lines 143-145: the loop over the three required fields of one requirement.\<close>

fun req_field_loop ::
  "(json \<Rightarrow> pystr) \<Rightarrow> json \<Rightarrow> pystr list \<Rightarrow> pystr list \<Rightarrow> py_exn + pystr list" where
  "req_field_loop rp req [] missing = Inr missing"
| "req_field_loop rp req (field # fields) missing =
     and_then (py_in field req) (\<lambda>present.
       if present then req_field_loop rp req fields missing
       else and_then (py_get req (u ''req_id'') (JStr (u ''unknown''))) (\<lambda>rid.
              req_field_loop rp req fields (missing @ [py_str rp rid @ u ''.'' @ field])))"

text \<open>Line 142: the loop over the requirements.\<close>

fun req_loop ::
  "(json \<Rightarrow> pystr) \<Rightarrow> json list \<Rightarrow> pystr list \<Rightarrow> py_exn + pystr list" where
  "req_loop rp [] missing = Inr missing"
| "req_loop rp (req # reqs) missing =
     and_then (req_field_loop rp req [u ''req_id'', u ''prd_ref'', u ''ambiguity_flags''] missing)
       (\<lambda>missing'. req_loop rp reqs missing')"

text \<open>Lines 132-145: the scan that builds the list \<open>missing\<close>.\<close>

definition intake_missing :: "(json \<Rightarrow> pystr) \<Rightarrow> json \<Rightarrow> py_exn + pystr list" where
  "intake_missing rp data =
     and_then (py_in (u ''plan_context'') data) (\<lambda>has_pc.
     and_then (if \<not> has_pc then Inr [u ''plan_context'']
           else plan_context_loop data [u ''purpose'', u ''in_scope'', u ''out_of_scope''] [])
       (\<lambda>missing.
     and_then (py_in (u ''requirements'') data) (\<lambda>has_reqs.
       if \<not> has_reqs then Inr (missing @ [u ''requirements''])
       else and_then (py_getitem data (u ''requirements'')) (\<lambda>rs.
            and_then (py_iter rs) (\<lambda>reqs. req_loop rp reqs missing)))))"

definition intake_failure :: "pystr list \<Rightarrow> pystr" where
  "intake_failure missing =
     u ''Intake Agent output failed validation.'' @ [10, 10] @ u ''Missing fields: '' @
     join (u '', '') missing"

definition validate_intake :: "(json \<Rightarrow> pystr) \<Rightarrow> json \<Rightarrow> failure + unit" where
  "validate_intake rp data =
     (case intake_missing rp data of
        Inl e \<Rightarrow> Inl (Uncaught e)
      | Inr missing \<Rightarrow> if missing \<noteq> [] then Inl (Fail (intake_failure missing)) else Inr ())"


section \<open>Risk validator\<close>

definition valid_types :: "pystr list" where
  "valid_types = [u ''unit'', u ''integration'', u ''e2e'', u ''exploratory'', u ''non_functional'']"

definition valid_surfaces :: "pystr list" where
  "valid_surfaces = [u ''ui'', u ''api'', u ''service'', u ''workflow'']"

text \<open>
  Lines 213-216 and 217-220: the check of one enumerated field of a test case
  (\<open>type\<close> against \<open>valid_types\<close>, \<open>surface\<close> against \<open>valid_surfaces\<close>).
\<close>

definition check_enum ::
  "(json \<Rightarrow> pystr) \<Rightarrow> pystr \<Rightarrow> json \<Rightarrow> pystr \<Rightarrow> pystr list \<Rightarrow> pystr list \<Rightarrow> py_exn + pystr list" where
  "check_enum rp tc_id tc field valid errors =
     and_then (py_in field tc) (\<lambda>present.
       if \<not> present then Inr (errors @ [tc_id @ u '': missing field '' @ [39] @ field @ [39]])
       else and_then (py_getitem tc field) (\<lambda>v.
            and_then (py_in_set v valid) (\<lambda>ok.
              if \<not> ok then
                and_then (py_getitem tc field) (\<lambda>v'.
                  Inr (errors @ [tc_id @ u '': invalid '' @ field @ u '' '' @ [39] @ py_str rp v' @ [39]]))
              else Inr errors)))"

text \<open>Lines 211-220: the loop over the test cases of one entry.\<close>

fun tc_loop ::
  "(json \<Rightarrow> pystr) \<Rightarrow> json list \<Rightarrow> pystr list \<Rightarrow> py_exn + pystr list" where
  "tc_loop rp [] errors = Inr errors"
| "tc_loop rp (tc # tcs) errors =
     and_then (py_get tc (u ''tc_id'') (JStr (u ''unknown''))) (\<lambda>tid.
     and_then (check_enum rp (py_str rp tid) tc (u ''type'') valid_types errors) (\<lambda>errors1.
     and_then (check_enum rp (py_str rp tid) tc (u ''surface'') valid_surfaces errors1) (\<lambda>errors2.
       tc_loop rp tcs errors2)))"

text \<open>Lines 208-210: the loop over the five required fields of one entry.\<close>

fun entry_field_loop :: "pystr \<Rightarrow> json \<Rightarrow> pystr list \<Rightarrow> pystr list \<Rightarrow> py_exn + pystr list" where
  "entry_field_loop req_id entry [] errors = Inr errors"
| "entry_field_loop req_id entry (field # fields) errors =
     and_then (py_in field entry) (\<lambda>present.
       entry_field_loop req_id entry fields
         (if present then errors
          else errors @ [req_id @ u '': missing field '' @ [39] @ field @ [39]]))"

definition required_entry_fields :: "pystr list" where
  "required_entry_fields =
     [u ''req_id'', u ''risk'', u ''severity'', u ''severity_locked'', u ''test_cases'']"

text \<open>Lines 206-220: the loop over the entries.\<close>

fun entry_loop ::
  "(json \<Rightarrow> pystr) \<Rightarrow> json list \<Rightarrow> pystr list \<Rightarrow> py_exn + pystr list" where
  "entry_loop rp [] errors = Inr errors"
| "entry_loop rp (entry # entries) errors =
     and_then (py_get entry (u ''req_id'') (JStr (u ''unknown''))) (\<lambda>rid.
     and_then (entry_field_loop (py_str rp rid) entry required_entry_fields errors) (\<lambda>errors1.
     and_then (py_get entry (u ''test_cases'') (JArr [])) (\<lambda>tcs.
     and_then (py_iter tcs) (\<lambda>tcl.
     and_then (tc_loop rp tcl errors1) (\<lambda>errors2.
       entry_loop rp entries errors2)))))"

definition not_array_failure :: pystr where
  "not_array_failure =
     u ''Risk Agent output failed validation.'' @ [10, 10] @
     u ''Expected a JSON array but got something else.''"

definition risk_failure :: "pystr list \<Rightarrow> pystr" where
  "risk_failure errors =
     u ''Risk Agent output failed validation.'' @ [10, 10] @ join [10] errors"

text \<open>\<open>isinstance(data, list)\<close>.\<close>

definition isinstance_list :: "json \<Rightarrow> bool" where
  "isinstance_list data = (case data of JArr xs \<Rightarrow> True | _ \<Rightarrow> False)"

text \<open>Lines 202-220: the scan that builds the list \<open>errors\<close>.\<close>

definition risk_errors :: "(json \<Rightarrow> pystr) \<Rightarrow> json \<Rightarrow> py_exn + pystr list" where
  "risk_errors rp data = and_then (py_iter data) (\<lambda>entries. entry_loop rp entries [])"

definition validate_risk :: "(json \<Rightarrow> pystr) \<Rightarrow> json \<Rightarrow> failure + unit" where
  "validate_risk rp data =
     (if \<not> isinstance_list data then Inl (Fail not_array_failure)
      else case risk_errors rp data of
             Inl e \<Rightarrow> Inl (Uncaught e)
           | Inr errors \<Rightarrow> if errors \<noteq> [] then Inl (Fail (risk_failure errors)) else Inr ())"


section \<open>Review validator\<close>

definition required_sections :: "pystr list" where
  "required_sections =
     [u ''## Purpose'', u ''## In Scope'', u ''## Out of Scope'', u ''## Review Decision'']"

definition review_missing :: "pystr \<Rightarrow> pystr list" where
  "review_missing content = filter (\<lambda>s. \<not> sublist s content) required_sections"

definition review_failure :: "pystr list \<Rightarrow> pystr" where
  "review_failure missing =
     u ''Review Agent output failed validation.'' @ [10, 10] @ u ''Missing sections: '' @
     join (u '', '') missing"

definition validate_review :: "pystr \<Rightarrow> failure + unit" where
  "validate_review content =
     (if review_missing content \<noteq> [] then Inl (Fail (review_failure (review_missing content)))
      else Inr ())"


section \<open>Sanitizer and decoder\<close>

text \<open>
  The library functions the program calls and whose code is not part of it:
  \<open>json.loads\<close> (a decoded value, a \<open>JSONDecodeError\<close> with its diagnostic text, or
  another exception such as \<open>RecursionError\<close>), \<open>json.dumps(_, indent=2)\<close> with its
  \<open>ensure_ascii\<close> flag, \<open>repr\<close>, and \<open>Path.stem\<close>.
\<close>

datatype decoded = Decoded json | JSONDecodeError pystr | DecodeRaised py_exn

record pylib =
  json_loads :: "pystr \<Rightarrow> decoded"
  json_dumps :: "bool \<Rightarrow> json \<Rightarrow> pystr"
  repr_of :: "json \<Rightarrow> pystr"
  stem :: "pystr \<Rightarrow> pystr"

text \<open>Line 52.\<close>

definition cleaned :: "pystr \<Rightarrow> pystr" where
  "cleaned raw =
     strip (removesuffix (removeprefix (removeprefix (strip raw) (u ''```json'')) (u ''```''))
              (u ''```''))"

definition parse_failure :: "pystr \<Rightarrow> pystr \<Rightarrow> pystr \<Rightarrow> pystr" where
  "parse_failure agent_name e text =
     agent_name @ u '' returned output that could not be parsed as JSON.'' @ [10, 10] @
     u ''Parse error: '' @ e @ [10, 10] @ u ''Raw output:'' @ [10] @ text"

definition parse_json_output :: "pylib \<Rightarrow> pystr \<Rightarrow> pystr \<Rightarrow> failure + json" where
  "parse_json_output lib raw agent_name =
     (case json_loads lib (cleaned raw) of
        Decoded v \<Rightarrow> Inr v
      | JSONDecodeError e \<Rightarrow> Inl (Fail (parse_failure agent_name e (cleaned raw)))
      | DecodeRaised x \<Rightarrow> Inl (Uncaught x))"


section \<open>The world of a run\<close>

text \<open>
  A file is absent, present but not readable as text, or a text. A path is identified
  with its text. The world gives the credential (\<open>OPENAI_API_KEY\<close>), the files at the
  start, the generation backend, which paths can be written, and today's date in ISO
  format. The backend answers the \<open>n\<close>-th call (counted from 0) for a system and a user
  message with the text of an exception or with the content of the first choice
  (\<open>None\<close> is possible).
\<close>

datatype fnode = Absent | Unreadable | Text pystr

record world =
  api_key :: "pystr option"
  files :: "pystr \<Rightarrow> fnode"
  completion :: "nat \<Rightarrow> pystr \<Rightarrow> pystr \<Rightarrow> pystr + pystr option"
  writable :: "pystr \<Rightarrow> bool"
  today :: pystr

text \<open>
  What a run does, in order: a line on standard output, a call of the backend with its
  system and user message, a file written with its path and content.
\<close>

datatype event = Stdout pystr | GatewayCall pystr pystr | Saved pystr pystr

record state =
  fs :: "pystr \<Rightarrow> fnode"
  trace :: "event list"

type_synonym 'a run = "state \<Rightarrow> (failure + 'a) \<times> state"

definition rbind :: "'a run \<Rightarrow> ('a \<Rightarrow> 'b run) \<Rightarrow> 'b run" where
  "rbind m f s = (case m s of (Inl e, s') \<Rightarrow> (Inl e, s') | (Inr x, s') \<Rightarrow> f x s')"

definition done_with :: "'a \<Rightarrow> 'a run" where
  "done_with x s = (Inr x, s)"

definition liftr :: "failure + 'a \<Rightarrow> 'a run" where
  "liftr r s = (r, s)"

definition emit :: "event \<Rightarrow> unit run" where
  "emit e s = (Inr (), s\<lparr>trace := trace s @ [e]\<rparr>)"

definition fail :: "pystr \<Rightarrow> 'a run" where
  "fail message s = (Inl (Fail message), s)"

text \<open>The lines that \<open>_step\<close> and \<open>_header\<close> print.\<close>

definition step_line :: "pystr \<Rightarrow> pystr" where
  "step_line message = u ''   '' @ message"

definition header_line :: "pystr \<Rightarrow> pystr" where
  "header_line title = [10, 9472, 9472] @ u '' '' @ title"

definition step :: "pystr \<Rightarrow> unit run" where
  "step message = emit (Stdout (step_line message))"

definition header :: "pystr \<Rightarrow> unit run" where
  "header title = emit (Stdout (header_line title))"

definition load_prompt :: "pystr \<Rightarrow> pystr run" where
  "load_prompt path s =
     (case fs s path of
        Absent \<Rightarrow> (Inl (Fail (u ''Prompt file not found: '' @ path)), s)
      | Unreadable \<Rightarrow> (Inl (Uncaught OSError), s)
      | Text t \<Rightarrow> (Inr t, s))"

definition save_text :: "world \<Rightarrow> pystr \<Rightarrow> pystr \<Rightarrow> unit run" where
  "save_text w content path s =
     (if writable w path
      then (Inr (), s\<lparr>fs := (fs s)(path := Text content), trace := trace s @ [Saved path content]\<rparr>)
      else (Inl (Uncaught OSError), s))"

definition save_json :: "pylib \<Rightarrow> world \<Rightarrow> json \<Rightarrow> pystr \<Rightarrow> unit run" where
  "save_json lib w data path = save_text w (json_dumps lib True data) path"

definition is_call :: "event \<Rightarrow> bool" where
  "is_call e = (case e of GatewayCall sys usr \<Rightarrow> True | _ \<Rightarrow> False)"

definition is_saved :: "event \<Rightarrow> bool" where
  "is_saved e = (case e of Saved path content \<Rightarrow> True | _ \<Rightarrow> False)"

text \<open>
  \<open>client.chat.completions.create\<close> with the fixed model and temperature: one call of
  the backend, recorded in the trace.
\<close>

definition create :: "world \<Rightarrow> pystr \<Rightarrow> pystr \<Rightarrow> (pystr + pystr option) run" where
  "create w sys usr s =
     (Inr (completion w (length (filter is_call (trace s))) sys usr),
      s\<lparr>trace := trace s @ [GatewayCall sys usr]\<rparr>)"

text \<open>\<open>response.choices[0].message.content or ""\<close>.\<close>

definition content_or_empty :: "pystr option \<Rightarrow> pystr" where
  "content_or_empty c = (case c of None \<Rightarrow> [] | Some t \<Rightarrow> t)"


section \<open>Intake stage\<close>

definition read_prd :: "pystr \<Rightarrow> pystr run" where
  "read_prd prd_path s =
     (case fs s prd_path of
        Absent \<Rightarrow> (Inl (Fail (u ''PRD file not found: '' @ prd_path)), s)
      | Unreadable \<Rightarrow> (Inl (Uncaught OSError), s)
      | Text t \<Rightarrow> (Inr t, s))"

definition req_count :: "json \<Rightarrow> py_exn + nat" where
  "req_count output = and_then (py_get output (u ''requirements'') (JArr [])) py_len"

definition run_intake_agent :: "pylib \<Rightarrow> world \<Rightarrow> pystr \<Rightarrow> pystr \<Rightarrow> json run" where
  "run_intake_agent lib w prd_path output_path =
     rbind (header (u ''Intake Agent'')) (\<lambda>_.
     rbind (step (u ''Loading prompt...'')) (\<lambda>_.
     rbind (load_prompt (u ''prompts/intake_prompt.md'')) (\<lambda>system_prompt.
     rbind (step (u ''Loading PRD from '' @ prd_path @ u ''...'')) (\<lambda>_.
     rbind (read_prd prd_path) (\<lambda>prd_content.
     rbind (step (u ''Calling model...'')) (\<lambda>_.
     rbind (create w system_prompt (u ''Here is the PRD to parse:'' @ [10, 10] @ prd_content))
       (\<lambda>response.
     case response of
       Inl e \<Rightarrow> fail (u ''Intake Agent API call failed.'' @ [10, 10] @ u ''Error: '' @ e)
     | Inr content \<Rightarrow>
     rbind (liftr (parse_json_output lib (content_or_empty content) (u ''Intake Agent'')))
       (\<lambda>output.
     rbind (step (u ''Validating output...'')) (\<lambda>_.
     rbind (liftr (validate_intake (repr_of lib) output)) (\<lambda>_.
     rbind (step (u ''Saving output to '' @ output_path @ u ''...'')) (\<lambda>_.
     rbind (save_json lib w output output_path) (\<lambda>_.
     rbind (liftr (uncaught (req_count output))) (\<lambda>n.
     rbind (emit (Stdout (u ''   '' @ [10003] @ u ''  Intake complete. '' @ str_nat n @
                          u '' requirements parsed.''))) (\<lambda>_.
     done_with output))))))))))))))"


section \<open>Risk stage\<close>

text \<open>Lines 161-169: the user message of the Risk stage.\<close>

definition risk_user_message :: "pylib \<Rightarrow> json \<Rightarrow> py_exn + pystr" where
  "risk_user_message lib intake_output =
     and_then (py_get intake_output (u ''requirements'') (JArr [])) (\<lambda>requirements.
     and_then (py_get intake_output (u ''project_context'') JNull) (\<lambda>project_context.
       Inr (u ''Here are the inputs to process:'' @ [10, 10] @
            u ''PROJECT CONTEXT:'' @ [10] @ json_dumps lib True project_context @ [10, 10] @
            u ''REQUIREMENTS:'' @ [10] @ json_dumps lib True requirements)))"

text \<open>Line 193: \<open>sum(len(entry.get("test_cases", [])) for entry in output)\<close>.\<close>

fun tc_count :: "json list \<Rightarrow> py_exn + nat" where
  "tc_count [] = Inr 0"
| "tc_count (entry # entries) =
     and_then (py_get entry (u ''test_cases'') (JArr [])) (\<lambda>tcs.
     and_then (py_len tcs) (\<lambda>n.
     and_then (tc_count entries) (\<lambda>m. Inr (n + m))))"

definition risk_summary :: "json \<Rightarrow> py_exn + nat \<times> nat" where
  "risk_summary output =
     and_then (py_iter output) (\<lambda>entries.
     and_then (tc_count entries) (\<lambda>tcs.
     and_then (py_len output) (\<lambda>n. Inr (n, tcs))))"

definition run_risk_agent :: "pylib \<Rightarrow> world \<Rightarrow> json \<Rightarrow> pystr \<Rightarrow> json run" where
  "run_risk_agent lib w intake_output output_path =
     rbind (header (u ''Risk Agent'')) (\<lambda>_.
     rbind (step (u ''Loading prompt...'')) (\<lambda>_.
     rbind (load_prompt (u ''prompts/risk_prompt.md'')) (\<lambda>system_prompt.
     rbind (liftr (uncaught (risk_user_message lib intake_output))) (\<lambda>user_message.
     rbind (step (u ''Building user message...'')) (\<lambda>_.
     rbind (step (u ''Calling model...'')) (\<lambda>_.
     rbind (create w system_prompt user_message) (\<lambda>response.
     case response of
       Inl e \<Rightarrow> fail (u ''Risk Agent API call failed.'' @ [10, 10] @ u ''Error: '' @ e)
     | Inr content \<Rightarrow>
     rbind (liftr (parse_json_output lib (content_or_empty content) (u ''Risk Agent'')))
       (\<lambda>output.
     rbind (step (u ''Validating output...'')) (\<lambda>_.
     rbind (liftr (validate_risk (repr_of lib) output)) (\<lambda>_.
     rbind (step (u ''Saving output to '' @ output_path @ u ''...'')) (\<lambda>_.
     rbind (save_json lib w output output_path) (\<lambda>_.
     rbind (liftr (uncaught (risk_summary output))) (\<lambda>counts.
     rbind (emit (Stdout (u ''   '' @ [10003] @ u ''  Risk complete. '' @ str_nat (fst counts) @
                          u '' requirements processed, '' @ str_nat (snd counts) @
                          u '' test cases generated.''))) (\<lambda>_.
     done_with output))))))))))))))"


section \<open>Review stage\<close>

text \<open>Line 260: the text that is validated and saved, from the generated text.\<close>

definition review_output :: "pystr \<Rightarrow> pystr" where
  "review_output raw = strip (replace raw [226, 128, 148] [8212])"

definition review_user_message :: "pylib \<Rightarrow> world \<Rightarrow> json \<Rightarrow> json \<Rightarrow> pystr \<Rightarrow> pystr" where
  "review_user_message lib w intake_output risk_output folder_name =
     u ''Here are the two inputs to render:'' @ [10, 10] @
     u ''INTAKE OUTPUT:'' @ [10] @ json_dumps lib False intake_output @ [10, 10] @
     u ''RISK OUTPUT:'' @ [10] @ json_dumps lib False risk_output @ [10, 10] @
     u ''Artifact ID: qraft-v1-'' @ folder_name @ [10] @
     u ''PRD Source: '' @ folder_name @ u ''.md'' @ [10] @
     u ''Generated: '' @ today w"

definition run_review_agent ::
  "pylib \<Rightarrow> world \<Rightarrow> json \<Rightarrow> json \<Rightarrow> pystr \<Rightarrow> pystr \<Rightarrow> unit run" where
  "run_review_agent lib w intake_output risk_output folder_name output_path =
     rbind (header (u ''Review Agent'')) (\<lambda>_.
     rbind (step (u ''Loading prompt...'')) (\<lambda>_.
     rbind (load_prompt (u ''prompts/review_prompt.md'')) (\<lambda>system_prompt.
     rbind (step (u ''Building user message...'')) (\<lambda>_.
     rbind (step (u ''Calling model...'')) (\<lambda>_.
     rbind (create w system_prompt
              (review_user_message lib w intake_output risk_output folder_name)) (\<lambda>response.
     case response of
       Inl e \<Rightarrow> fail (u ''Review Agent API call failed.'' @ [10, 10] @ u ''Error: '' @ e)
     | Inr content \<Rightarrow>
     rbind (step (u ''Validating output...'')) (\<lambda>_.
     rbind (liftr (validate_review (review_output (content_or_empty content)))) (\<lambda>_.
     rbind (step (u ''Saving output to '' @ output_path @ u ''...'')) (\<lambda>_.
     rbind (save_text w (review_output (content_or_empty content)) output_path) (\<lambda>_.
     emit (Stdout (u ''   '' @ [10003] @ u ''  Review complete. Test plan saved to '' @
                   output_path @ u ''.''))))))))))))"


section \<open>Runner\<close>

definition get_openai_client :: "world \<Rightarrow> unit run" where
  "get_openai_client w =
     (case api_key w of
        None \<Rightarrow> fail (u ''OPENAI_API_KEY is not set. Add it to your .env file.'')
      | Some k \<Rightarrow>
          if k = [] then fail (u ''OPENAI_API_KEY is not set. Add it to your .env file.'')
          else done_with ())"

definition intake_output_path :: "pylib \<Rightarrow> pystr \<Rightarrow> pystr" where
  "intake_output_path lib prd_path = u ''output/'' @ stem lib prd_path @ u ''/intake_output.json''"

definition risk_output_path :: "pylib \<Rightarrow> pystr \<Rightarrow> pystr" where
  "risk_output_path lib prd_path = u ''output/'' @ stem lib prd_path @ u ''/risk_output.json''"

definition test_plan_path :: "pylib \<Rightarrow> pystr \<Rightarrow> pystr" where
  "test_plan_path lib prd_path = u ''output/'' @ stem lib prd_path @ u ''/test_plan.md''"

text \<open>
  \<open>main\<close> on the argument vector \<open>argv\<close> (the script name first). The usage lines of a
  wrong argument count go to the error channel and are not events.
\<close>

definition pipeline :: "pylib \<Rightarrow> world \<Rightarrow> pystr \<Rightarrow> unit run" where
  "pipeline lib w prd_path =
     rbind (emit (Stdout ([10] @ u ''QRAFT '' @ [8212] @ u '' Phase 1 Pipeline''))) (\<lambda>_.
     rbind (emit (Stdout (u ''Input:  '' @ prd_path))) (\<lambda>_.
     rbind (emit (Stdout (u ''Output: output/'' @ stem lib prd_path @ u ''/''))) (\<lambda>_.
     rbind (get_openai_client w) (\<lambda>_.
     rbind (run_intake_agent lib w prd_path (intake_output_path lib prd_path)) (\<lambda>intake_output.
     rbind (run_risk_agent lib w intake_output (risk_output_path lib prd_path)) (\<lambda>risk_output.
     rbind (run_review_agent lib w intake_output risk_output (stem lib prd_path)
              (test_plan_path lib prd_path)) (\<lambda>_.
     emit (Stdout ([10, 10003] @ u ''  Pipeline complete. Test plan ready for human review at '' @
                   test_plan_path lib prd_path @ [10])))))))))"

text \<open>The three lines that \<open>main\<close> prints first.\<close>

definition banner :: "pylib \<Rightarrow> pystr \<Rightarrow> event list" where
  "banner lib prd = [Stdout ([10] @ u ''QRAFT '' @ [8212] @ u '' Phase 1 Pipeline''),
     Stdout (u ''Input:  '' @ prd), Stdout (u ''Output: output/'' @ stem lib prd @ u ''/'')]"

definition main :: "pylib \<Rightarrow> world \<Rightarrow> pystr list \<Rightarrow> (failure + unit) \<times> state" where
  "main lib w argv =
     (if length argv \<noteq> 2 then (Inl Usage, \<lparr>fs = files w, trace = []\<rparr>)
      else pipeline lib w (argv ! 1) \<lparr>fs = files w, trace = []\<rparr>)"


section \<open>A sample run\<close>

text \<open>
  A concrete library and world for the examples. The decoder and the serializer are
  tables: on the texts and values listed they give what \<open>json.loads\<close> and
  \<open>json.dumps(_, indent=2)\<close> give (every other text is rejected with the diagnostic
  that \<open>json.loads\<close> has for a text whose first character starts no JSON value).
  The backend answers the first call with the sample Intake result inside a
  \<open>```json\<close> fence, the second with an empty Risk result, and the third with a
  Review document that has white space around it and the three code points
  U+00E2 U+0080 U+0094 inside.
\<close>

definition dq :: "string \<Rightarrow> pystr" where
  "dq s = [34] @ u s @ [34]"

definition sample_intake :: json where
  "sample_intake =
     JObj [(u ''plan_context'',
              JObj [(u ''purpose'', JStr (u ''p'')), (u ''in_scope'', JStr (u ''i'')),
                    (u ''out_of_scope'', JStr (u ''o''))]),
           (u ''requirements'', JArr [])]"

definition sample_intake_text :: pystr where
  "sample_intake_text =
     u ''{'' @ dq ''plan_context'' @ u '': {'' @ dq ''purpose'' @ u '': '' @ dq ''p'' @ u '', '' @
     dq ''in_scope'' @ u '': '' @ dq ''i'' @ u '', '' @ dq ''out_of_scope'' @ u '': '' @ dq ''o'' @
     u ''}, '' @ dq ''requirements'' @ u '': []}''"

definition sample_intake_dump :: pystr where
  "sample_intake_dump =
     u ''{'' @ [10] @ u ''  '' @ dq ''plan_context'' @ u '': {'' @ [10] @
     u ''    '' @ dq ''purpose'' @ u '': '' @ dq ''p'' @ u '','' @ [10] @
     u ''    '' @ dq ''in_scope'' @ u '': '' @ dq ''i'' @ u '','' @ [10] @
     u ''    '' @ dq ''out_of_scope'' @ u '': '' @ dq ''o'' @ [10] @
     u ''  },'' @ [10] @
     u ''  '' @ dq ''requirements'' @ u '': []'' @ [10] @ u ''}''"

definition sample_loads :: "pystr \<Rightarrow> decoded" where
  "sample_loads s =
     (if s = sample_intake_text then Decoded sample_intake
      else if s = u ''[]'' then Decoded (JArr [])
      else if s = u ''{}'' then Decoded (JObj [])
      else if s = u ''1'' then Decoded (JInt 1)
      else JSONDecodeError (u ''Expecting value: line 1 column 1 (char 0)''))"

definition sample_dumps :: "bool \<Rightarrow> json \<Rightarrow> pystr" where
  "sample_dumps ensure_ascii v =
     (if v = sample_intake then sample_intake_dump
      else if v = JArr [] then u ''[]''
      else if v = JObj [] then u ''{}''
      else if v = JNull then u ''null''
      else [])"

definition sample_lib :: pylib where
  "sample_lib =
     \<lparr>json_loads = sample_loads, json_dumps = sample_dumps, repr_of = (\<lambda>v. []),
      stem = (\<lambda>p. if p = u ''sample_input/prd_clean_agile.md'' then u ''prd_clean_agile''
                   else p)\<rparr>"

definition sample_review_text :: pystr where
  "sample_review_text =
     u '' ## Purpose'' @ [10] @ u ''a '' @ [226, 128, 148] @ u '' b'' @ [10] @
     u ''## In Scope'' @ [10] @ u ''## Out of Scope'' @ [10] @ u ''## Review Decision'' @ [10]"

definition sample_files :: "pystr \<Rightarrow> fnode" where
  "sample_files p =
     (if p = u ''prompts/intake_prompt.md'' then Text (u ''Extract the requirements.'')
      else if p = u ''prompts/risk_prompt.md'' then Text (u ''Assess the risks.'')
      else if p = u ''prompts/review_prompt.md'' then Text (u ''Render the plan.'')
      else if p = u ''sample_input/prd_clean_agile.md'' then Text (u ''The product shall log in.'')
      else Absent)"

definition sample_intake_response :: pystr where
  "sample_intake_response = u ''```json'' @ [10] @ sample_intake_text @ [10] @ u ''```''"

definition sample_completion :: "nat \<Rightarrow> pystr \<Rightarrow> pystr \<Rightarrow> pystr + pystr option" where
  "sample_completion n sys usr =
     (if n = 0 then Inr (Some sample_intake_response)
      else if n = 1 then Inr (Some (u ''[]''))
      else Inr (Some sample_review_text))"

definition sample_world :: world where
  "sample_world =
     \<lparr>api_key = Some (u ''sk-test''), files = sample_files, completion = sample_completion,
      writable = (\<lambda>p. True), today = u ''2025-01-01''\<rparr>"

definition sample_argv :: "pystr list" where
  "sample_argv = [u ''run_pipeline.py'', u ''sample_input/prd_clean_agile.md'']"

text \<open>
  A state in which the backend has been called twice, as when the Review stage starts,
  and three variants of the sample world: one whose Risk instruction template is absent,
  one with no file at all, and one whose backend answers the Intake call with the empty
  JSON object.
\<close>

definition state_before_review :: state where
  "state_before_review =
     \<lparr>fs = sample_files,
      trace = [GatewayCall (u ''Extract the requirements.'') (u ''Here is the PRD to parse:''),
               GatewayCall (u ''Assess the risks.'') (u ''Here are the inputs to process:'')]\<rparr>"

definition world_without_risk_prompt :: world where
  "world_without_risk_prompt =
     sample_world\<lparr>files := sample_files(u ''prompts/risk_prompt.md'' := Absent)\<rparr>"

definition world_without_files :: world where
  "world_without_files = sample_world\<lparr>files := (\<lambda>p. Absent)\<rparr>"

definition world_with_empty_intake :: world where
  "world_with_empty_intake =
     sample_world\<lparr>completion := (\<lambda>n sys usr. Inr (Some (u ''{}'')))\<rparr>"

text \<open>
  The events that order a run: the header line with which a stage begins (the only
  lines on standard output that start with a line feed and two U+2500), the calls of
  the backend and the files written.
\<close>

definition is_header :: "event \<Rightarrow> bool" where
  "is_header e = (case e of Stdout t \<Rightarrow> prefix [10, 9472, 9472] t | _ \<Rightarrow> False)"

definition stage_begins :: "pystr \<Rightarrow> event" where
  "stage_begins title = Stdout (header_line title)"

definition marks :: "event list \<Rightarrow> event list" where
  "marks tr = filter (\<lambda>e. is_header e \<or> is_call e \<or> is_saved e) tr"

definition io_events :: "event list \<Rightarrow> event list" where
  "io_events tr = filter (\<lambda>e. is_call e \<or> is_saved e) tr"


section \<open>Basic facts\<close>

text \<open>
  The equations of \<open>str_nat\<close> and \<open>replace\<close> call themselves under a condition, so
  they are unfolded by hand, not by the simplifier.
\<close>

declare str_nat.simps [simp del]

declare replace.simps [simp del]

lemma and_thenE:
  assumes "and_then m k = Inr y"
  obtains x where "m = Inr x" "k x = Inr y"
  using assms by (cases m) simp_all

lemma and_then_eq_Inr: "and_then m k = Inr y \<longleftrightarrow> (\<exists>x. m = Inr x \<and> k x = Inr y)"
  by (cases m) simp_all

lemmas run_defs = rbind_def done_with_def liftr_def emit_def fail_def step_def header_def
  load_prompt_def save_text_def save_json_def create_def read_prd_def


section \<open>After validation, the summaries cannot raise\<close>

lemma py_iter_len: "py_iter v = Inr xs \<Longrightarrow> \<exists>n. py_len v = Inr n"
  by (cases v) simp_all

lemma py_getitem_get: "py_getitem d k = Inr v \<Longrightarrow> py_get d k dflt = Inr v"
  by (cases d) (auto split: option.splits)

lemma intake_missing_requirements:
  assumes "intake_missing rp out = Inr []"
  shows "\<exists>rs reqs. py_getitem out (u ''requirements'') = Inr rs \<and> py_iter rs = Inr reqs"
  using assms unfolding intake_missing_def
  by (elim and_thenE) (auto split: if_splits elim!: and_thenE simp del: plan_context_loop.simps)

lemma req_count_validated:
  assumes "validate_intake rp out = Inr ()"
  shows "\<exists>n. req_count out = Inr n"
proof -
  from assms have "intake_missing rp out = Inr []"
    by (simp add: validate_intake_def split: sum.splits if_splits)
  from intake_missing_requirements[OF this] obtain rs reqs where
    a: "py_getitem out (u ''requirements'') = Inr rs" "py_iter rs = Inr reqs" by blast
  from py_iter_len[OF a(2)] py_getitem_get[OF a(1)] show ?thesis
    by (auto simp: req_count_def)
qed

lemma entry_loop_tc_count:
  "entry_loop rp entries acc = Inr errs \<Longrightarrow> \<exists>n. tc_count entries = Inr n"
proof (induction entries arbitrary: acc)
  case Nil then show ?case by simp
next
  case (Cons e es)
  from Cons.prems obtain tcs tcl e2 where
    a: "py_get e (u ''test_cases'') (JArr []) = Inr tcs" "py_iter tcs = Inr tcl" "entry_loop rp es e2 = Inr errs"
    by (simp del: entry_field_loop.simps tc_loop.simps) (elim and_thenE, blast)
  from Cons.IH[OF a(3)] obtain n where "tc_count es = Inr n" by blast
  with a(1) py_iter_len[OF a(2)] show ?case by auto
qed

lemma risk_summary_validated:
  assumes "validate_risk rp out = Inr ()"
  shows "\<exists>counts. risk_summary out = Inr counts"
proof -
  from assms obtain es where es: "out = JArr es"
    by (cases out) (simp_all add: validate_risk_def isinstance_list_def)
  with assms obtain errs where "entry_loop rp es [] = Inr errs"
    by (cases "entry_loop rp es []") (simp_all add: validate_risk_def risk_errors_def isinstance_list_def)
  from entry_loop_tc_count[OF this] es show ?thesis by (auto simp: risk_summary_def)
qed
section \<open>The stages, one at a time\<close>

lemma is_header_simps [simp]:
  "is_header (Stdout (step_line m)) = False"
  "is_header (Stdout (header_line t)) = True"
  "is_header (Stdout (u ''   '' @ m)) = False"
  "is_header (GatewayCall a b) = False"
  "is_header (Saved p c) = False"
  by (simp_all add: is_header_def u_def step_line_def header_line_def)

lemma is_call_simps [simp]: "is_call (GatewayCall a b) = True" "is_call (Saved p c) = False" "is_call (Stdout t) = False"
  by (simp_all add: is_call_def)

lemma is_saved_simps [simp]: "is_saved (GatewayCall a b) = False" "is_saved (Saved p c) = True" "is_saved (Stdout t) = False"
  by (simp_all add: is_saved_def)




lemma run_intake_agent_success:
  assumes "run_intake_agent lib w prd op s = (Inr out, s')"
  shows "\<exists>evs sp t c. trace s' = trace s @ evs \<and> fs s (u ''prompts/intake_prompt.md'') = Text sp \<and> fs s prd = Text t \<and>
        completion w (length (filter is_call (trace s))) sp (u ''Here is the PRD to parse:'' @ [10, 10] @ t) = Inr c \<and>
        parse_json_output lib (content_or_empty c) (u ''Intake Agent'') = Inr out \<and>
        validate_intake (repr_of lib) out = Inr () \<and> writable w op \<and>
        fs s' = (fs s)(op := Text (json_dumps lib True out)) \<and>
        marks evs = [Stdout (header_line (u ''Intake Agent'')),
                     GatewayCall sp (u ''Here is the PRD to parse:'' @ [10, 10] @ t),
                     Saved op (json_dumps lib True out)]"
  using assms unfolding run_intake_agent_def run_defs
  by (auto split: fnode.splits sum.splits if_splits prod.splits simp: marks_def uncaught_def)



lemma run_intake_agent_no_prompt:
  assumes "fs s (u ''prompts/intake_prompt.md'') = Absent"
  shows "run_intake_agent lib w prd op s =
     (Inl (Fail (u ''Prompt file not found: '' @ u ''prompts/intake_prompt.md'')),
      s\<lparr>trace := trace s @ [Stdout (header_line (u ''Intake Agent'')), Stdout (step_line (u ''Loading prompt...''))]\<rparr>)"
  using assms unfolding run_intake_agent_def run_defs by simp

lemma run_risk_agent_success:
  assumes "run_risk_agent lib w io op s = (Inr out, s')"
  shows "\<exists>evs sp m c. trace s' = trace s @ evs \<and> fs s (u ''prompts/risk_prompt.md'') = Text sp \<and>
        risk_user_message lib io = Inr m \<and>
        completion w (length (filter is_call (trace s))) sp m = Inr c \<and>
        parse_json_output lib (content_or_empty c) (u ''Risk Agent'') = Inr out \<and>
        validate_risk (repr_of lib) out = Inr () \<and> writable w op \<and>
        fs s' = (fs s)(op := Text (json_dumps lib True out)) \<and>
        marks evs = [Stdout (header_line (u ''Risk Agent'')), GatewayCall sp m,
                     Saved op (json_dumps lib True out)]"
  using assms unfolding run_risk_agent_def run_defs
  by (auto split: fnode.splits sum.splits if_splits prod.splits simp: marks_def uncaught_def)


lemma run_risk_agent_no_prompt:
  assumes "fs s (u ''prompts/risk_prompt.md'') = Absent"
  shows "run_risk_agent lib w io op s =
     (Inl (Fail (u ''Prompt file not found: '' @ u ''prompts/risk_prompt.md'')),
      s\<lparr>trace := trace s @ [Stdout (header_line (u ''Risk Agent'')), Stdout (step_line (u ''Loading prompt...''))]\<rparr>)"
  using assms unfolding run_risk_agent_def run_defs by simp

lemma run_review_agent_success:
  assumes "run_review_agent lib w io ro fn op s = (Inr x, s')"
  shows "\<exists>evs sp c. trace s' = trace s @ evs \<and> fs s (u ''prompts/review_prompt.md'') = Text sp \<and>
        completion w (length (filter is_call (trace s))) sp (review_user_message lib w io ro fn) = Inr c \<and>
        validate_review (review_output (content_or_empty c)) = Inr () \<and> writable w op \<and>
        fs s' = (fs s)(op := Text (review_output (content_or_empty c))) \<and>
        marks evs = [Stdout (header_line (u ''Review Agent'')),
                     GatewayCall sp (review_user_message lib w io ro fn),
                     Saved op (review_output (content_or_empty c))]"
  using assms unfolding run_review_agent_def run_defs
  by (auto split: fnode.splits sum.splits if_splits prod.splits simp: marks_def uncaught_def)


lemma run_review_agent_no_prompt:
  assumes "fs s (u ''prompts/review_prompt.md'') = Absent"
  shows "run_review_agent lib w io ro fn op s =
     (Inl (Fail (u ''Prompt file not found: '' @ u ''prompts/review_prompt.md'')),
      s\<lparr>trace := trace s @ [Stdout (header_line (u ''Review Agent'')), Stdout (step_line (u ''Loading prompt...''))]\<rparr>)"
  using assms unfolding run_review_agent_def run_defs by simp

lemma rbindE:
  assumes "rbind m k s = (r, s')"
  obtains (failed) e where "m s = (Inl e, s')" "r = Inl e"
        | (went_on) x s1 where "m s = (Inr x, s1)" "k x s1 = (r, s')"
  using assms unfolding rbind_def by (auto split: prod.splits sum.splits)


section \<open>The order of a run\<close>

lemma marks_append [simp]: "marks (a @ b) = marks a @ marks b"
  by (simp add: marks_def)

lemma marks_Nil [simp]: "marks [] = []"
  by (simp add: marks_def)

lemma marks_Cons [simp]:
  "marks (e # es) = (if is_header e \<or> is_call e \<or> is_saved e then e # marks es else marks es)"
  by (simp add: marks_def)



lemma run_intake_agent_ok:
  assumes "fs s (u ''prompts/intake_prompt.md'') = Text sp" "fs s prd = Text t"
    "completion w (length (filter is_call (trace s))) sp (u ''Here is the PRD to parse:'' @ [10, 10] @ t) = Inr c"
    "json_loads lib (cleaned (content_or_empty c)) = Decoded out"
    "validate_intake (repr_of lib) out = Inr ()" "writable w op"
  shows "\<exists>s'. run_intake_agent lib w prd op s = (Inr out, s') \<and>
     fs s' = (fs s)(op := Text (json_dumps lib True out)) \<and>
     marks (trace s') = marks (trace s) @ [stage_begins (u ''Intake Agent''),
        GatewayCall sp (u ''Here is the PRD to parse:'' @ [10, 10] @ t),
        Saved op (json_dumps lib True out)]"
proof -
  from req_count_validated[OF assms(5)] obtain n where "req_count out = Inr n" by blast
  with assms show ?thesis
    unfolding run_intake_agent_def run_defs
    by (simp add: marks_def parse_json_output_def uncaught_def stage_begins_def)
qed

lemma run_risk_agent_ok:
  assumes "fs s (u ''prompts/risk_prompt.md'') = Text sp" "risk_user_message lib io = Inr m"
    "completion w (length (filter is_call (trace s))) sp m = Inr c"
    "json_loads lib (cleaned (content_or_empty c)) = Decoded out"
    "validate_risk (repr_of lib) out = Inr ()" "writable w op"
  shows "\<exists>s'. run_risk_agent lib w io op s = (Inr out, s') \<and>
     fs s' = (fs s)(op := Text (json_dumps lib True out)) \<and>
     marks (trace s') = marks (trace s) @ [stage_begins (u ''Risk Agent''), GatewayCall sp m,
        Saved op (json_dumps lib True out)]"
proof -
  from risk_summary_validated[OF assms(5)] obtain n where "risk_summary out = Inr n" by blast
  with assms show ?thesis
    unfolding run_risk_agent_def run_defs
    by (simp add: marks_def parse_json_output_def uncaught_def stage_begins_def)
qed

lemma run_review_agent_ok:
  assumes "fs s (u ''prompts/review_prompt.md'') = Text sp"
    "completion w (length (filter is_call (trace s))) sp (review_user_message lib w io ro fn) = Inr c"
    "validate_review (review_output (content_or_empty c)) = Inr ()" "writable w op"
  shows "\<exists>s'. run_review_agent lib w io ro fn op s = (Inr (), s') \<and>
     fs s' = (fs s)(op := Text (review_output (content_or_empty c))) \<and>
     marks (trace s') = marks (trace s) @ [stage_begins (u ''Review Agent''),
        GatewayCall sp (review_user_message lib w io ro fn),
        Saved op (review_output (content_or_empty c))]"
  using assms unfolding run_review_agent_def run_defs
  by (simp add: marks_def stage_begins_def)

lemma count_calls_marks: "length (filter is_call tr) = length (filter is_call (marks tr))"
  by (induction tr) (auto simp: marks_def)

lemma prompt_not_output [simp]:
  "u ''prompts/risk_prompt.md'' \<noteq> intake_output_path lib prd"
  "u ''prompts/review_prompt.md'' \<noteq> intake_output_path lib prd"
  "u ''prompts/review_prompt.md'' \<noteq> risk_output_path lib prd"
  by (simp_all add: intake_output_path_def risk_output_path_def u_def)

lemma marks_banner [simp]: "marks (banner lib prd) = []"
  by (simp add: banner_def marks_def is_header_def is_call_def is_saved_def u_def)

lemma calls_banner [simp]: "filter is_call (banner lib prd) = []"
  by (simp add: banner_def)

lemma pipeline_with_key:
  assumes "api_key w = Some k" "k \<noteq> []"
  shows "pipeline lib w prd s =
     rbind (run_intake_agent lib w prd (intake_output_path lib prd)) (\<lambda>intake_output.
     rbind (run_risk_agent lib w intake_output (risk_output_path lib prd)) (\<lambda>risk_output.
     rbind (run_review_agent lib w intake_output risk_output (stem lib prd)
              (test_plan_path lib prd)) (\<lambda>_.
     emit (Stdout ([10, 10003] @ u ''  Pipeline complete. Test plan ready for human review at '' @
                   test_plan_path lib prd @ [10])))))
       (s\<lparr>trace := trace s @ banner lib prd\<rparr>)"
  using assms unfolding pipeline_def banner_def
  by (simp add: rbind_def emit_def get_openai_client_def done_with_def)

lemma pipeline_without_key:
  assumes "api_key w = None \<or> api_key w = Some []"
  shows "pipeline lib w prd s =
     (Inl (Fail (u ''OPENAI_API_KEY is not set. Add it to your .env file.'')),
      s\<lparr>trace := trace s @ banner lib prd\<rparr>)"
  using assms unfolding pipeline_def banner_def
  by (auto simp add: rbind_def emit_def get_openai_client_def fail_def)


lemma pipeline_no_intake_prompt:
  assumes "api_key w = Some k" "k \<noteq> []" "fs s (u ''prompts/intake_prompt.md'') = Absent"
  shows "\<exists>s'. pipeline lib w prd s =
     (Inl (Fail (u ''Prompt file not found: '' @ u ''prompts/intake_prompt.md'')), s') \<and>
     marks (trace s') = marks (trace s) @ [stage_begins (u ''Intake Agent'')]"
  unfolding pipeline_with_key[OF assms(1,2)]
  by (simp add: rbind_def run_intake_agent_no_prompt assms(3) stage_begins_def)

lemma pipeline_no_risk_prompt:
  assumes "api_key w = Some k" "k \<noteq> []"
    "fs s (u ''prompts/intake_prompt.md'') = Text sp" "fs s prd = Text t"
    "completion w (length (filter is_call (trace s))) sp (u ''Here is the PRD to parse:'' @ [10, 10] @ t) = Inr c"
    "json_loads lib (cleaned (content_or_empty c)) = Decoded out"
    "validate_intake (repr_of lib) out = Inr ()" "writable w (intake_output_path lib prd)"
    "fs s (u ''prompts/risk_prompt.md'') = Absent"
  shows "\<exists>s'. pipeline lib w prd s =
     (Inl (Fail (u ''Prompt file not found: '' @ u ''prompts/risk_prompt.md'')), s') \<and>
     marks (trace s') = marks (trace s) @ [stage_begins (u ''Intake Agent''),
        GatewayCall sp (u ''Here is the PRD to parse:'' @ [10, 10] @ t),
        Saved (intake_output_path lib prd) (json_dumps lib True out),
        stage_begins (u ''Risk Agent'')]"
proof -
  let ?s1 = "s\<lparr>trace := trace s @ banner lib prd\<rparr>"
  have "\<exists>s'. run_intake_agent lib w prd (intake_output_path lib prd) ?s1 = (Inr out, s') \<and>
     fs s' = (fs ?s1)(intake_output_path lib prd := Text (json_dumps lib True out)) \<and>
     marks (trace s') = marks (trace ?s1) @ [stage_begins (u ''Intake Agent''),
        GatewayCall sp (u ''Here is the PRD to parse:'' @ [10, 10] @ t),
        Saved (intake_output_path lib prd) (json_dumps lib True out)]"
    by (rule run_intake_agent_ok) (use assms in simp_all)
  then obtain s2 where s2: "run_intake_agent lib w prd (intake_output_path lib prd) ?s1 = (Inr out, s2)"
     "fs s2 = (fs s)(intake_output_path lib prd := Text (json_dumps lib True out))"
     "marks (trace s2) = marks (trace s) @ [stage_begins (u ''Intake Agent''),
        GatewayCall sp (u ''Here is the PRD to parse:'' @ [10, 10] @ t),
        Saved (intake_output_path lib prd) (json_dumps lib True out)]"
    by auto
  have "fs s2 (u ''prompts/risk_prompt.md'') = Absent" using s2(2) assms(9) by simp
  from run_risk_agent_no_prompt[OF this] s2 show ?thesis
    unfolding pipeline_with_key[OF assms(1,2)]
    by (simp add: rbind_def stage_begins_def)
qed

lemma calls_after: "marks tr' = marks tr @ ms \<Longrightarrow>
   length (filter is_call tr') = length (filter is_call tr) + length (filter is_call ms)"
  using count_calls_marks[of tr'] count_calls_marks[of tr] by simp

lemma pipeline_success:
  assumes key: "api_key w = Some k" "k \<noteq> []"
    and i: "fs s (u ''prompts/intake_prompt.md'') = Text sp" "fs s prd = Text t"
    "completion w (length (filter is_call (trace s))) sp (u ''Here is the PRD to parse:'' @ [10, 10] @ t) = Inr c"
    "json_loads lib (cleaned (content_or_empty c)) = Decoded out"
    "validate_intake (repr_of lib) out = Inr ()" "writable w (intake_output_path lib prd)"
    and r: "fs s (u ''prompts/risk_prompt.md'') = Text sp2" "risk_user_message lib out = Inr m"
    "completion w (Suc (length (filter is_call (trace s)))) sp2 m = Inr c2"
    "json_loads lib (cleaned (content_or_empty c2)) = Decoded out2"
    "validate_risk (repr_of lib) out2 = Inr ()" "writable w (risk_output_path lib prd)"
    and v: "fs s (u ''prompts/review_prompt.md'') = Text sp3"
    "completion w (Suc (Suc (length (filter is_call (trace s))))) sp3
        (review_user_message lib w out out2 (stem lib prd)) = Inr c3"
    "validate_review (review_output (content_or_empty c3)) = Inr ()"
    "writable w (test_plan_path lib prd)"
  shows "\<exists>s'. pipeline lib w prd s = (Inr (), s') \<and>
     marks (trace s') = marks (trace s) @ [stage_begins (u ''Intake Agent''),
        GatewayCall sp (u ''Here is the PRD to parse:'' @ [10, 10] @ t),
        Saved (intake_output_path lib prd) (json_dumps lib True out),
        stage_begins (u ''Risk Agent''), GatewayCall sp2 m,
        Saved (risk_output_path lib prd) (json_dumps lib True out2),
        stage_begins (u ''Review Agent''),
        GatewayCall sp3 (review_user_message lib w out out2 (stem lib prd)),
        Saved (test_plan_path lib prd) (review_output (content_or_empty c3))]"
proof -
  let ?s1 = "s\<lparr>trace := trace s @ banner lib prd\<rparr>"
  have "\<exists>s'. run_intake_agent lib w prd (intake_output_path lib prd) ?s1 = (Inr out, s') \<and>
     fs s' = (fs ?s1)(intake_output_path lib prd := Text (json_dumps lib True out)) \<and>
     marks (trace s') = marks (trace ?s1) @ [stage_begins (u ''Intake Agent''),
        GatewayCall sp (u ''Here is the PRD to parse:'' @ [10, 10] @ t),
        Saved (intake_output_path lib prd) (json_dumps lib True out)]"
    by (rule run_intake_agent_ok) (use i in simp_all)
  then obtain s2 where s2: "run_intake_agent lib w prd (intake_output_path lib prd) ?s1 = (Inr out, s2)"
     "fs s2 = (fs s)(intake_output_path lib prd := Text (json_dumps lib True out))"
     "marks (trace s2) = marks (trace s) @ [stage_begins (u ''Intake Agent''),
        GatewayCall sp (u ''Here is the PRD to parse:'' @ [10, 10] @ t),
        Saved (intake_output_path lib prd) (json_dumps lib True out)]"
    by auto
  have n2: "length (filter is_call (trace s2)) = Suc (length (filter is_call (trace s)))"
    using calls_after[OF s2(3)] by (simp add: stage_begins_def)
  have "\<exists>s'. run_risk_agent lib w out (risk_output_path lib prd) s2 = (Inr out2, s') \<and>
     fs s' = (fs s2)(risk_output_path lib prd := Text (json_dumps lib True out2)) \<and>
     marks (trace s') = marks (trace s2) @ [stage_begins (u ''Risk Agent''), GatewayCall sp2 m,
        Saved (risk_output_path lib prd) (json_dumps lib True out2)]"
    by (rule run_risk_agent_ok) (use r s2(2) n2 in simp_all)
  then obtain s3 where s3: "run_risk_agent lib w out (risk_output_path lib prd) s2 = (Inr out2, s3)"
     "fs s3 = (fs s2)(risk_output_path lib prd := Text (json_dumps lib True out2))"
     "marks (trace s3) = marks (trace s2) @ [stage_begins (u ''Risk Agent''), GatewayCall sp2 m,
        Saved (risk_output_path lib prd) (json_dumps lib True out2)]"
    by auto
  have n3: "length (filter is_call (trace s3)) = Suc (Suc (length (filter is_call (trace s))))"
    using calls_after[OF s3(3)] n2 by (simp add: stage_begins_def)
  have "\<exists>s'. run_review_agent lib w out out2 (stem lib prd) (test_plan_path lib prd) s3 = (Inr (), s') \<and>
     fs s' = (fs s3)(test_plan_path lib prd := Text (review_output (content_or_empty c3))) \<and>
     marks (trace s') = marks (trace s3) @ [stage_begins (u ''Review Agent''),
        GatewayCall sp3 (review_user_message lib w out out2 (stem lib prd)),
        Saved (test_plan_path lib prd) (review_output (content_or_empty c3))]"
    by (rule run_review_agent_ok) (use v s2(2) s3(2) n3 in simp_all)
  then obtain s4 where s4: "run_review_agent lib w out out2 (stem lib prd) (test_plan_path lib prd) s3 = (Inr (), s4)"
     "marks (trace s4) = marks (trace s3) @ [stage_begins (u ''Review Agent''),
        GatewayCall sp3 (review_user_message lib w out out2 (stem lib prd)),
        Saved (test_plan_path lib prd) (review_output (content_or_empty c3))]"
    by auto
  show ?thesis
    unfolding pipeline_with_key[OF key]
    by (simp add: rbind_def s2 s3 s4 emit_def is_header_def)
qed

lemma pipeline_needs_prompts:
  assumes "pipeline lib w prd s = (Inr x, s')"
  shows "(\<exists>t. fs s (u ''prompts/intake_prompt.md'') = Text t) \<and>
         (\<exists>t. fs s (u ''prompts/risk_prompt.md'') = Text t) \<and>
         (\<exists>t. fs s (u ''prompts/review_prompt.md'') = Text t)"
proof -
  obtain k where key: "api_key w = Some k" "k \<noteq> []"
    using assms pipeline_without_key[of w lib prd s] by (cases "api_key w") auto
  let ?s1 = "s\<lparr>trace := trace s @ banner lib prd\<rparr>"
  from assms[unfolded pipeline_with_key[OF key]] show ?thesis
  proof (cases rule: rbindE)
    case (went_on out s2)
    from run_intake_agent_success[OF went_on(1)] have
      a: "\<exists>t. fs s (u ''prompts/intake_prompt.md'') = Text t"
      and f2: "fs s2 = (fs s)(intake_output_path lib prd := Text (json_dumps lib True out))"
      by auto
    from went_on(2) show ?thesis
    proof (cases rule: rbindE)
      case (went_on out2 s3)
      from run_risk_agent_success[OF went_on(1)] f2 have
        b: "\<exists>t. fs s (u ''prompts/risk_prompt.md'') = Text t"
        and f3: "fs s3 = (fs s2)(risk_output_path lib prd := Text (json_dumps lib True out2))"
        by auto
      from went_on(2) show ?thesis
      proof (cases rule: rbindE)
        case (went_on y s4)
        from run_review_agent_success[OF went_on(1)] f2 f3 have
          "\<exists>t. fs s (u ''prompts/review_prompt.md'') = Text t" by auto
        with a b show ?thesis by simp
      qed simp
    qed simp
  qed simp
qed


section \<open>Facts about the sample run\<close>

lemma sample_world_simps:
  "api_key world_with_empty_intake = Some (u ''sk-test'')"
  "files world_with_empty_intake = sample_files"
  "completion world_with_empty_intake n sys usr = Inr (Some (u ''{}''))"
  "api_key world_without_risk_prompt = Some (u ''sk-test'')"
  "files world_without_risk_prompt = sample_files(u ''prompts/risk_prompt.md'' := Absent)"
  "completion world_without_risk_prompt = sample_completion"
  "writable world_without_risk_prompt p"
  "api_key sample_world = Some (u ''sk-test'')"
  "files sample_world = sample_files"
  "completion sample_world = sample_completion"
  "writable sample_world p"
  "today sample_world = u ''2025-01-01''"
  by (simp_all add: world_with_empty_intake_def world_without_risk_prompt_def sample_world_def)

lemma sample_lib_simps:
  "json_loads sample_lib = sample_loads" "json_dumps sample_lib = sample_dumps"
  "repr_of sample_lib = (\<lambda>v. [])"
  "stem sample_lib (u ''sample_input/prd_clean_agile.md'') = u ''prd_clean_agile''"
  by (simp_all add: sample_lib_def)

lemma sample_files_simps:
  "sample_files (u ''prompts/intake_prompt.md'') = Text (u ''Extract the requirements.'')"
  "sample_files (u ''prompts/risk_prompt.md'') = Text (u ''Assess the risks.'')"
  "sample_files (u ''prompts/review_prompt.md'') = Text (u ''Render the plan.'')"
  "sample_files (u ''sample_input/prd_clean_agile.md'') = Text (u ''The product shall log in.'')"
  by code_simp+

lemma sample_argv_simps: "length sample_argv = 2" "sample_argv ! 1 = u ''sample_input/prd_clean_agile.md''"
  "sample_argv ! Suc 0 = u ''sample_input/prd_clean_agile.md''"
  by (simp_all add: sample_argv_def)



lemma nonempty_key: "u ''sk-test'' \<noteq> []"
  by (simp add: u_def)


section \<open>A run halts at the Intake validator\<close>


lemma main_two_args: "length argv = 2 \<Longrightarrow>
   main lib w argv = pipeline lib w (argv ! 1) \<lparr>fs = files w, trace = []\<rparr>"
  by (simp add: main_def)




section \<open>Review validator: the four section markers\<close>

lemma validate_review_ok: "validate_review c = Inr () \<longleftrightarrow> (\<forall>m \<in> set required_sections. sublist m c)"
  by (auto simp: validate_review_def review_missing_def filter_empty_conv)

text \<open>
  C8. For every Review document text, validation succeeds exactly when each of the four
  literal markers \<open>## Purpose\<close>, \<open>## In Scope\<close>, \<open>## Out of Scope\<close> and
  \<open>## Review Decision\<close> occurs in it as a substring, wherever and in whatever order.
  When it fails, the message lists the absent markers and only those, in the order of
  the four; a document that lacks only \<open>## Review Decision\<close> fails naming exactly that
  section.
\<close>

theorem review_validation_markers:
  "(validate_review content = Inr () \<longleftrightarrow>
      (\<forall>m \<in> set [u ''## Purpose'', u ''## In Scope'', u ''## Out of Scope'',
                 u ''## Review Decision'']. sublist m content)) \<and>
   (validate_review content \<noteq> Inr () \<longrightarrow>
      validate_review content =
        Inl (Fail (u ''Review Agent output failed validation.'' @ [10, 10] @
                   u ''Missing sections: '' @
                   join (u '', '')
                     (filter (\<lambda>m. \<not> sublist m content)
                        [u ''## Purpose'', u ''## In Scope'', u ''## Out of Scope'',
                         u ''## Review Decision''])))) \<and>
   (sublist (u ''## Purpose'') content \<and> sublist (u ''## In Scope'') content \<and>
    sublist (u ''## Out of Scope'') content \<and> \<not> sublist (u ''## Review Decision'') content \<longrightarrow>
      validate_review content =
        Inl (Fail (u ''Review Agent output failed validation.'' @ [10, 10] @
                   u ''Missing sections: ## Review Decision'')))"
proof (intro conjI impI)
  show "validate_review content = Inr () \<longleftrightarrow>
      (\<forall>m \<in> set [u ''## Purpose'', u ''## In Scope'', u ''## Out of Scope'',
                 u ''## Review Decision'']. sublist m content)"
    using validate_review_ok [of content] by (simp add: required_sections_def)
next
  assume "validate_review content \<noteq> Inr ()"
  then show "validate_review content =
        Inl (Fail (u ''Review Agent output failed validation.'' @ [10, 10] @
                   u ''Missing sections: '' @
                   join (u '', '')
                     (filter (\<lambda>m. \<not> sublist m content)
                        [u ''## Purpose'', u ''## In Scope'', u ''## Out of Scope'',
                         u ''## Review Decision''])))"
    by (simp add: validate_review_def review_missing_def review_failure_def
        required_sections_def split: if_splits)
next
  assume a: "sublist (u ''## Purpose'') content \<and> sublist (u ''## In Scope'') content \<and>
    sublist (u ''## Out of Scope'') content \<and> \<not> sublist (u ''## Review Decision'') content"
  then have "review_missing content = [u ''## Review Decision'']"
    by (simp add: review_missing_def required_sections_def)
  then show "validate_review content =
        Inl (Fail (u ''Review Agent output failed validation.'' @ [10, 10] @
                   u ''Missing sections: ## Review Decision''))"
    by (simp add: validate_review_def review_failure_def u_def)
qed

theorem review_validation_markers_witness:
  "validate_review (u ''x ## Review Decision: go ## Out of Scope a ## In Scope b ## Purpose c'')
     = Inr () \<and>
   validate_review (u ''## Purpose a ## In Scope b ## Out of Scope c'') \<noteq> Inr () \<and>
   validate_review (u ''## Purpose a ## In Scope b ## Out of Scope c'') =
     Inl (Fail (u ''Review Agent output failed validation.'' @ [10, 10] @
                u ''Missing sections: ## Review Decision''))"
proof -
  have all: "\<forall>m \<in> set [u ''## Purpose'', u ''## In Scope'', u ''## Out of Scope'',
                 u ''## Review Decision''].
      sublist m (u ''x ## Review Decision: go ## Out of Scope a ## In Scope b ## Purpose c'')"
    by code_simp
  have part: "sublist (u ''## Purpose'') (u ''## Purpose a ## In Scope b ## Out of Scope c'') \<and>
      sublist (u ''## In Scope'') (u ''## Purpose a ## In Scope b ## Out of Scope c'') \<and>
      sublist (u ''## Out of Scope'') (u ''## Purpose a ## In Scope b ## Out of Scope c'') \<and>
      \<not> sublist (u ''## Review Decision'') (u ''## Purpose a ## In Scope b ## Out of Scope c'')"
    by code_simp
  from review_validation_markers
         [of "u ''x ## Review Decision: go ## Out of Scope a ## In Scope b ## Purpose c''"] all
  have 1: "validate_review
      (u ''x ## Review Decision: go ## Out of Scope a ## In Scope b ## Purpose c'') = Inr ()"
    by blast
  from review_validation_markers [of "u ''## Purpose a ## In Scope b ## Out of Scope c''"] part
  have 2: "validate_review (u ''## Purpose a ## In Scope b ## Out of Scope c'') =
     Inl (Fail (u ''Review Agent output failed validation.'' @ [10, 10] @
                u ''Missing sections: ## Review Decision''))"
    by blast
  from 1 2 show ?thesis by simp
qed


section \<open>More facts about the sample run\<close>

lemma variant_world_simps:
  "api_key world_without_files = Some (u ''sk-test'')"
  "files world_without_files = (\<lambda>p. Absent)"
  by (simp_all add: world_without_files_def sample_world_def)

lemma sample_intake_decoded:
  "sample_loads (cleaned (content_or_empty (Some sample_intake_response))) =
     Decoded sample_intake"
  by code_simp

lemma sample_intake_valid: "validate_intake (\<lambda>v. []) sample_intake = Inr ()"
  by code_simp

lemma sample_paths:
  "intake_output_path sample_lib (u ''sample_input/prd_clean_agile.md'') = u ''output/prd_clean_agile/intake_output.json''"
  "risk_output_path sample_lib (u ''sample_input/prd_clean_agile.md'') = u ''output/prd_clean_agile/risk_output.json''"
  "test_plan_path sample_lib (u ''sample_input/prd_clean_agile.md'') = u ''output/prd_clean_agile/test_plan.md''"
  by (simp_all add: intake_output_path_def risk_output_path_def test_plan_path_def sample_lib_simps)
     (simp_all add: u_def)

lemma sample_intake_dumped: "sample_dumps True sample_intake = sample_intake_dump"
  by (simp add: sample_dumps_def)

lemma sample_completion_simps:
  "sample_completion 0 sys usr = Inr (Some sample_intake_response)"
  "sample_completion (Suc 0) sys usr = Inr (Some (u ''[]''))"
  "sample_completion (Suc (Suc 0)) sys usr = Inr (Some sample_review_text)"
  by (simp_all add: sample_completion_def)

lemma without_risk_prompt_files:
  "files world_without_risk_prompt (u ''prompts/risk_prompt.md'') = Absent"
  "files world_without_risk_prompt (u ''prompts/intake_prompt.md'') = Text (u ''Extract the requirements.'')"
  "files world_without_risk_prompt (u ''sample_input/prd_clean_agile.md'') = Text (u ''The product shall log in.'')"
proof -
  show "files world_without_risk_prompt (u ''prompts/risk_prompt.md'') = Absent"
    by (simp add: sample_world_simps)
  have "u ''prompts/intake_prompt.md'' \<noteq> u ''prompts/risk_prompt.md''"
    "u ''sample_input/prd_clean_agile.md'' \<noteq> u ''prompts/risk_prompt.md''"
    by (simp_all add: u_def)
  then show  "files world_without_risk_prompt (u ''prompts/intake_prompt.md'') = Text (u ''Extract the requirements.'')"
  "files world_without_risk_prompt (u ''sample_input/prd_clean_agile.md'') = Text (u ''The product shall log in.'')"
    by (simp_all add: sample_world_simps sample_files_simps)
qed


section \<open>A missing instruction template\<close>

text \<open>
  C1 (as the code has it). An absent instruction template is found when its own stage
  starts, not before the run: the stage fails with \<open>Prompt file not found\<close> right after
  its header and its first progress line, before its call of the backend and before its
  file is written. A run in which one of the three templates is absent never succeeds.
  Only for the Intake template does the failure come before every call of the backend
  and every file (given the credential).
\<close>

theorem missing_template_fails_when_its_stage_starts:
  "(fs s (u ''prompts/intake_prompt.md'') = Absent \<longrightarrow>
      run_intake_agent lib w prd intake_path s =
        (Inl (Fail (u ''Prompt file not found: '' @ u ''prompts/intake_prompt.md'')),
         s\<lparr>trace := trace s @ [Stdout (header_line (u ''Intake Agent'')),
                                Stdout (step_line (u ''Loading prompt...''))]\<rparr>)) \<and>
   (fs s (u ''prompts/risk_prompt.md'') = Absent \<longrightarrow>
      run_risk_agent lib w intake_output risk_path s =
        (Inl (Fail (u ''Prompt file not found: '' @ u ''prompts/risk_prompt.md'')),
         s\<lparr>trace := trace s @ [Stdout (header_line (u ''Risk Agent'')),
                                Stdout (step_line (u ''Loading prompt...''))]\<rparr>)) \<and>
   (fs s (u ''prompts/review_prompt.md'') = Absent \<longrightarrow>
      run_review_agent lib w intake_output risk_output folder_name plan_path s =
        (Inl (Fail (u ''Prompt file not found: '' @ u ''prompts/review_prompt.md'')),
         s\<lparr>trace := trace s @ [Stdout (header_line (u ''Review Agent'')),
                                Stdout (step_line (u ''Loading prompt...''))]\<rparr>)) \<and>
   (length argv = 2 \<and>
    (files w (u ''prompts/intake_prompt.md'') = Absent \<or>
     files w (u ''prompts/risk_prompt.md'') = Absent \<or>
     files w (u ''prompts/review_prompt.md'') = Absent) \<longrightarrow>
      fst (main lib w argv) \<noteq> Inr ()) \<and>
   (length argv = 2 \<and> (\<exists>k. api_key w = Some k \<and> k \<noteq> []) \<and>
    files w (u ''prompts/intake_prompt.md'') = Absent \<longrightarrow>
      fst (main lib w argv) =
        Inl (Fail (u ''Prompt file not found: '' @ u ''prompts/intake_prompt.md'')) \<and>
      marks (trace (snd (main lib w argv))) = [stage_begins (u ''Intake Agent'')])"
proof (intro conjI impI)
  assume "fs s (u ''prompts/intake_prompt.md'') = Absent"
  then show "run_intake_agent lib w prd intake_path s =
        (Inl (Fail (u ''Prompt file not found: '' @ u ''prompts/intake_prompt.md'')),
         s\<lparr>trace := trace s @ [Stdout (header_line (u ''Intake Agent'')),
                                Stdout (step_line (u ''Loading prompt...''))]\<rparr>)"
    by (rule run_intake_agent_no_prompt)
next
  assume "fs s (u ''prompts/risk_prompt.md'') = Absent"
  then show "run_risk_agent lib w intake_output risk_path s =
        (Inl (Fail (u ''Prompt file not found: '' @ u ''prompts/risk_prompt.md'')),
         s\<lparr>trace := trace s @ [Stdout (header_line (u ''Risk Agent'')),
                                Stdout (step_line (u ''Loading prompt...''))]\<rparr>)"
    by (rule run_risk_agent_no_prompt)
next
  assume "fs s (u ''prompts/review_prompt.md'') = Absent"
  then show "run_review_agent lib w intake_output risk_output folder_name plan_path s =
        (Inl (Fail (u ''Prompt file not found: '' @ u ''prompts/review_prompt.md'')),
         s\<lparr>trace := trace s @ [Stdout (header_line (u ''Review Agent'')),
                                Stdout (step_line (u ''Loading prompt...''))]\<rparr>)"
    by (rule run_review_agent_no_prompt)
next
  assume a: "length argv = 2 \<and>
    (files w (u ''prompts/intake_prompt.md'') = Absent \<or>
     files w (u ''prompts/risk_prompt.md'') = Absent \<or>
     files w (u ''prompts/review_prompt.md'') = Absent)"
  show "fst (main lib w argv) \<noteq> Inr ()"
  proof
    assume "fst (main lib w argv) = Inr ()"
    with a have "pipeline lib w (argv ! 1) \<lparr>fs = files w, trace = []\<rparr> =
        (Inr (), snd (pipeline lib w (argv ! 1) \<lparr>fs = files w, trace = []\<rparr>))"
      by (simp add: main_two_args prod_eq_iff)
    from pipeline_needs_prompts[OF this] a show False by auto
  qed
next
  assume a: "length argv = 2 \<and> (\<exists>k. api_key w = Some k \<and> k \<noteq> []) \<and>
    files w (u ''prompts/intake_prompt.md'') = Absent"
  then obtain k where k: "api_key w = Some k" "k \<noteq> []" by blast
  have "\<exists>s'. pipeline lib w (argv ! 1) \<lparr>fs = files w, trace = []\<rparr> =
     (Inl (Fail (u ''Prompt file not found: '' @ u ''prompts/intake_prompt.md'')), s') \<and>
     marks (trace s') = marks (trace \<lparr>fs = files w, trace = []\<rparr>) @ [stage_begins (u ''Intake Agent'')]"
    by (rule pipeline_no_intake_prompt[OF k]) (use a in simp)
  with a show "fst (main lib w argv) =
        Inl (Fail (u ''Prompt file not found: '' @ u ''prompts/intake_prompt.md''))"
    and "marks (trace (snd (main lib w argv))) = [stage_begins (u ''Intake Agent'')]"
    by (auto simp: main_two_args)
qed

theorem missing_template_fails_when_its_stage_starts_witness:
  "length sample_argv = 2 \<and>
   (\<exists>k. api_key world_without_files = Some k \<and> k \<noteq> []) \<and>
   files world_without_files (u ''prompts/intake_prompt.md'') = Absent \<and>
   fs \<lparr>fs = files world_without_files, trace = []\<rparr> (u ''prompts/risk_prompt.md'') = Absent \<and>
   fs \<lparr>fs = files world_without_files, trace = []\<rparr> (u ''prompts/review_prompt.md'') = Absent \<and>
   fst (main sample_lib world_without_files sample_argv) =
     Inl (Fail (u ''Prompt file not found: '' @ u ''prompts/intake_prompt.md'')) \<and>
   marks (trace (snd (main sample_lib world_without_files sample_argv))) =
     [stage_begins (u ''Intake Agent'')] \<and>
   fst (run_risk_agent sample_lib world_without_files sample_intake
          (u ''output/prd_clean_agile/risk_output.json'')
          \<lparr>fs = files world_without_files, trace = []\<rparr>) =
     Inl (Fail (u ''Prompt file not found: '' @ u ''prompts/risk_prompt.md'')) \<and>
   fst (run_review_agent sample_lib world_without_files sample_intake (JArr []) (u ''prd_clean_agile'')
          (u ''output/prd_clean_agile/test_plan.md'')
          \<lparr>fs = files world_without_files, trace = []\<rparr>) =
     Inl (Fail (u ''Prompt file not found: '' @ u ''prompts/review_prompt.md''))"
proof -
  have key: "\<exists>k. api_key world_without_files = Some k \<and> k \<noteq> []"
    by (simp add: variant_world_simps nonempty_key)
  have absent: "files world_without_files (u ''prompts/intake_prompt.md'') = Absent"
    "fs \<lparr>fs = files world_without_files, trace = []\<rparr> (u ''prompts/intake_prompt.md'') = Absent"
    "fs \<lparr>fs = files world_without_files, trace = []\<rparr> (u ''prompts/risk_prompt.md'') = Absent"
    "fs \<lparr>fs = files world_without_files, trace = []\<rparr> (u ''prompts/review_prompt.md'') = Absent"
    by (simp_all add: variant_world_simps)
  from missing_template_fails_when_its_stage_starts
    [where s = "\<lparr>fs = files world_without_files, trace = []\<rparr>" and lib = sample_lib
       and w = world_without_files and risk_path = "u ''output/prd_clean_agile/risk_output.json''"
       and plan_path = "u ''output/prd_clean_agile/test_plan.md''"
       and intake_output = sample_intake and risk_output = "JArr []"
       and folder_name = "u ''prd_clean_agile''" and argv = sample_argv]
    key absent sample_argv_simps(1)
  show ?thesis
    by simp
qed

text \<open>
  The claim as stated fails: with the Risk template absent, the Intake stage has called
  the backend and written its artifact before the run fails.
\<close>

theorem risk_template_missing_counterexample:
  "files world_without_risk_prompt (u ''prompts/risk_prompt.md'') = Absent \<and>
   fst (main sample_lib world_without_risk_prompt sample_argv) =
     Inl (Fail (u ''Prompt file not found: '' @ u ''prompts/risk_prompt.md'')) \<and>
   marks (trace (snd (main sample_lib world_without_risk_prompt sample_argv))) =
     [stage_begins (u ''Intake Agent''),
      GatewayCall (u ''Extract the requirements.'')
        (u ''Here is the PRD to parse:'' @ [10, 10] @ u ''The product shall log in.''),
      Saved (u ''output/prd_clean_agile/intake_output.json'') sample_intake_dump,
      stage_begins (u ''Risk Agent'')]"
proof -
  let ?prd = "u ''sample_input/prd_clean_agile.md''"
  let ?s0 = "\<lparr>fs = files world_without_risk_prompt, trace = []\<rparr>"
  have "\<exists>s'. pipeline sample_lib world_without_risk_prompt ?prd ?s0 =
     (Inl (Fail (u ''Prompt file not found: '' @ u ''prompts/risk_prompt.md'')), s') \<and>
     marks (trace s') = marks (trace ?s0) @ [stage_begins (u ''Intake Agent''),
        GatewayCall (u ''Extract the requirements.'')
          (u ''Here is the PRD to parse:'' @ [10, 10] @ u ''The product shall log in.''),
        Saved (intake_output_path sample_lib ?prd) (json_dumps sample_lib True sample_intake),
        stage_begins (u ''Risk Agent'')]"
  proof (rule pipeline_no_risk_prompt)
    show "api_key world_without_risk_prompt = Some (u ''sk-test'')" by (simp add: sample_world_simps)
    show "u ''sk-test'' \<noteq> []" by (rule nonempty_key)
    show "fs ?s0 (u ''prompts/intake_prompt.md'') = Text (u ''Extract the requirements.'')"
      by (simp add: without_risk_prompt_files)
    show "fs ?s0 ?prd = Text (u ''The product shall log in.'')"
      by (simp add: without_risk_prompt_files)
    show "completion world_without_risk_prompt (length (filter is_call (trace ?s0)))
        (u ''Extract the requirements.'')
        (u ''Here is the PRD to parse:'' @ [10, 10] @ u ''The product shall log in.'') =
        Inr (Some sample_intake_response)"
      by (simp add: sample_world_simps sample_completion_simps)
    show "json_loads sample_lib (cleaned (content_or_empty
        (Some sample_intake_response))) = Decoded sample_intake"
      by (simp add: sample_lib_simps sample_intake_decoded)
    show "validate_intake (repr_of sample_lib) sample_intake = Inr ()"
      by (simp add: sample_lib_simps sample_intake_valid)
    show "writable world_without_risk_prompt (intake_output_path sample_lib ?prd)"
      by (simp add: sample_world_simps)
    show "fs ?s0 (u ''prompts/risk_prompt.md'') = Absent"
      by (simp add: without_risk_prompt_files)
  qed
  then show ?thesis
    by (auto simp: main_two_args sample_argv_simps sample_paths sample_lib_simps
        sample_intake_dumped without_risk_prompt_files)
qed


section \<open>The text of the Review document\<close>
























section \<open>The input of the Risk stage\<close>

lemma risk_calls:
  "filter is_call (trace (snd (run_risk_agent lib w io op s))) =
     filter is_call (trace s) @
     (case fs s (u ''prompts/risk_prompt.md'') of
        Text sp \<Rightarrow> (case risk_user_message lib io of Inr m \<Rightarrow> [GatewayCall sp m] | Inl e \<Rightarrow> [])
      | _ \<Rightarrow> [])"
  unfolding run_risk_agent_def run_defs
  by (auto split: fnode.splits sum.splits if_splits prod.splits simp: uncaught_def)

lemma risk_user_message_dict:
  "risk_user_message lib (JObj kvs) =
     Inr (u ''Here are the inputs to process:'' @ [10, 10] @
          u ''PROJECT CONTEXT:'' @ [10] @
          json_dumps lib True (case map_of kvs (u ''project_context'') of None \<Rightarrow> JNull | Some v \<Rightarrow> v) @
          [10, 10] @ u ''REQUIREMENTS:'' @ [10] @
          json_dumps lib True (case map_of kvs (u ''requirements'') of None \<Rightarrow> JArr [] | Some v \<Rightarrow> v))"
  by (simp add: risk_user_message_def split: option.splits)

lemma key_names_differ:
  "u ''plan_context'' \<noteq> u ''requirements''" "u ''plan_context'' \<noteq> u ''project_context''"
  "u ''requirements'' \<noteq> u ''plan_context''" "u ''project_context'' \<noteq> u ''plan_context''"
  by (simp_all add: u_def)

text \<open>
  C9. The user message that the Risk stage sends to the backend is built from two values
  of the Intake output only: the value under \<open>requirements\<close> (an empty list when the key
  is absent) and the value under \<open>project_context\<close> (\<open>None\<close> when the key is absent, so
  the serializer is given \<open>None\<close>). Two Intake outputs that agree on these two keys give
  the same message and the same call of the backend, whatever else they hold; in
  particular the value under \<open>plan_context\<close>, which the Intake validator checks, never
  reaches the Risk stage.
\<close>

theorem risk_input_ignores_plan_context:
  "(map_of a (u ''requirements'') = map_of b (u ''requirements'') \<and>
    map_of a (u ''project_context'') = map_of b (u ''project_context'') \<longrightarrow>
      risk_user_message lib (JObj a) = risk_user_message lib (JObj b) \<and>
      filter is_call (trace (snd (run_risk_agent lib w (JObj a) output_path s))) =
      filter is_call (trace (snd (run_risk_agent lib w (JObj b) output_path s)))) \<and>
   risk_user_message lib (JObj ((u ''plan_context'', v) # kvs)) =
     risk_user_message lib (JObj ((u ''plan_context'', v') # kvs)) \<and>
   risk_user_message lib (JObj a) =
     Inr (u ''Here are the inputs to process:'' @ [10, 10] @
          u ''PROJECT CONTEXT:'' @ [10] @
          json_dumps lib True
            (case map_of a (u ''project_context'') of None \<Rightarrow> JNull | Some v \<Rightarrow> v) @
          [10, 10] @ u ''REQUIREMENTS:'' @ [10] @
          json_dumps lib True
            (case map_of a (u ''requirements'') of None \<Rightarrow> JArr [] | Some v \<Rightarrow> v))"
proof (intro conjI impI)
  assume h: "map_of a (u ''requirements'') = map_of b (u ''requirements'') \<and>
    map_of a (u ''project_context'') = map_of b (u ''project_context'')"
  then show m: "risk_user_message lib (JObj a) = risk_user_message lib (JObj b)"
    by (simp add: risk_user_message_dict)
  then show "filter is_call (trace (snd (run_risk_agent lib w (JObj a) output_path s))) =
      filter is_call (trace (snd (run_risk_agent lib w (JObj b) output_path s)))"
    by (simp add: risk_calls split: fnode.splits)
next
  show "risk_user_message lib (JObj ((u ''plan_context'', v) # kvs)) =
     risk_user_message lib (JObj ((u ''plan_context'', v') # kvs))"
    by (simp add: risk_user_message_dict key_names_differ)
next
  show "risk_user_message lib (JObj a) =
     Inr (u ''Here are the inputs to process:'' @ [10, 10] @
          u ''PROJECT CONTEXT:'' @ [10] @
          json_dumps lib True
            (case map_of a (u ''project_context'') of None \<Rightarrow> JNull | Some v \<Rightarrow> v) @
          [10, 10] @ u ''REQUIREMENTS:'' @ [10] @
          json_dumps lib True
            (case map_of a (u ''requirements'') of None \<Rightarrow> JArr [] | Some v \<Rightarrow> v))"
    by (rule risk_user_message_dict)
qed


theorem risk_input_ignores_plan_context_witness:
  "map_of [(u ''plan_context'', JObj []), (u ''requirements'', JArr [])] (u ''requirements'') =
     map_of [(u ''requirements'', JArr []), (u ''plan_context'', JStr (u ''other''))] (u ''requirements'') \<and>
   map_of [(u ''plan_context'', JObj []), (u ''requirements'', JArr [])] (u ''project_context'') =
     map_of [(u ''requirements'', JArr []), (u ''plan_context'', JStr (u ''other''))] (u ''project_context'') \<and>
   risk_user_message sample_lib (JObj [(u ''plan_context'', JObj []), (u ''requirements'', JArr [])]) =
     risk_user_message sample_lib
       (JObj [(u ''requirements'', JArr []), (u ''plan_context'', JStr (u ''other''))]) \<and>
   risk_user_message sample_lib (JObj [(u ''plan_context'', JObj []), (u ''requirements'', JArr [])]) =
     Inr (u ''Here are the inputs to process:'' @ [10, 10] @ u ''PROJECT CONTEXT:'' @ [10] @
          u ''null'' @ [10, 10] @ u ''REQUIREMENTS:'' @ [10] @ u ''[]'')"
proof -
  have h: "map_of [(u ''plan_context'', JObj []), (u ''requirements'', JArr [])] (u ''requirements'') =
     map_of [(u ''requirements'', JArr []), (u ''plan_context'', JStr (u ''other''))] (u ''requirements'') \<and>
   map_of [(u ''plan_context'', JObj []), (u ''requirements'', JArr [])] (u ''project_context'') =
     map_of [(u ''requirements'', JArr []), (u ''plan_context'', JStr (u ''other''))] (u ''project_context'')"
    by (simp add: u_def)
  have v: "(case map_of [(u ''plan_context'', JObj []), (u ''requirements'', JArr [])] (u ''project_context'')
            of None \<Rightarrow> JNull | Some v \<Rightarrow> v) = JNull"
     "(case map_of [(u ''plan_context'', JObj []), (u ''requirements'', JArr [])] (u ''requirements'')
            of None \<Rightarrow> JArr [] | Some v \<Rightarrow> v) = JArr []"
    by (simp_all add: u_def)
  have d: "sample_dumps True JNull = u ''null''" "sample_dumps True (JArr []) = u ''[]''"
    by (simp_all add: sample_dumps_def sample_intake_def)
  note inst = risk_input_ignores_plan_context
    [where a = "[(u ''plan_context'', JObj []), (u ''requirements'', JArr [])]"
       and b = "[(u ''requirements'', JArr []), (u ''plan_context'', JStr (u ''other''))]"
       and lib = sample_lib and w = sample_world
       and output_path = "u ''output/prd_clean_agile/risk_output.json''"
       and s = state_before_review and v = JNull and v' = JNull and kvs = "[]"]
  from inst h have eq:
    "risk_user_message sample_lib (JObj [(u ''plan_context'', JObj []), (u ''requirements'', JArr [])]) =
     risk_user_message sample_lib
       (JObj [(u ''requirements'', JArr []), (u ''plan_context'', JStr (u ''other''))])"
    by blast
  from inst have val:
    "risk_user_message sample_lib (JObj [(u ''plan_context'', JObj []), (u ''requirements'', JArr [])]) =
     Inr (u ''Here are the inputs to process:'' @ [10, 10] @
          u ''PROJECT CONTEXT:'' @ [10] @
          json_dumps sample_lib True
            (case map_of [(u ''plan_context'', JObj []), (u ''requirements'', JArr [])]
                    (u ''project_context'') of None \<Rightarrow> JNull | Some v \<Rightarrow> v) @
          [10, 10] @ u ''REQUIREMENTS:'' @ [10] @
          json_dumps sample_lib True
            (case map_of [(u ''plan_context'', JObj []), (u ''requirements'', JArr [])]
                    (u ''requirements'') of None \<Rightarrow> JArr [] | Some v \<Rightarrow> v))"
    by blast
  have val': "risk_user_message sample_lib (JObj [(u ''plan_context'', JObj []), (u ''requirements'', JArr [])]) =
     Inr (u ''Here are the inputs to process:'' @ [10, 10] @ u ''PROJECT CONTEXT:'' @ [10] @
          u ''null'' @ [10, 10] @ u ''REQUIREMENTS:'' @ [10] @ u ''[]'')"
    using val by (simp only: v d sample_lib_simps)
  from h eq val' show ?thesis by blast
qed

end
